theory Spec2Isabelle
  imports Complex_Main "HOL-Library.Sublist"
begin

section \<open>The 3D character shop API: catalog listing, seeding and mock checkout\<close>

text \<open>
  A shallow embedding of \<^verbatim>\<open>main.py\<close>. The process-wide handle \<^verbatim>\<open>db\<close> is either
  \<^verbatim>\<open>None\<close> or a database whose only collection in use is \<^verbatim>\<open>charactermodel\<close>; it is
  modelled as an optional list of documents in the store's natural order, passed to each
  endpoint and returned by it, so that writes are visible. An \<^verbatim>\<open>HTTPException\<close> is the
  left summand of the result. Python floats are idealised as real numbers.
\<close>

subsection \<open>Store references (\<^verbatim>\<open>bson.ObjectId\<close>)\<close>

text \<open>
  An \<^verbatim>\<open>ObjectId\<close> made from a string keeps the bytes that \<^verbatim>\<open>bytes.fromhex\<close> reads from
  it, and prints them as lowercase hexadecimal digits. The library accepts a string of
  exactly 24 characters that \<^verbatim>\<open>bytes.fromhex\<close> can read: pairs of hexadecimal digits of
  either case, with ASCII whitespace allowed around the pairs. So 24 digits give the twelve
  bytes of a stored identifier, and an accepted string with whitespace in it gives fewer.
  The model keeps the printed form of the bytes.
\<close>

datatype objectid = Oid string

definition hexdigits :: string where
  "hexdigits = ''0123456789abcdefABCDEF''"

definition whitespace :: string where
  "whitespace = [CHR 0x20, CHR 0x09, CHR 0x0A, CHR 0x0B, CHR 0x0C, CHR 0x0D]"

definition lower_ascii :: "char \<Rightarrow> char" where
  "lower_ascii c =
     (case map_of (zip ''ABCDEFGHIJKLMNOPQRSTUVWXYZ'' ''abcdefghijklmnopqrstuvwxyz'') c of
        None \<Rightarrow> c
      | Some l \<Rightarrow> l)"

text \<open>\<^verbatim>\<open>bytes.fromhex(s).hex()\<close>, or \<open>None\<close> where \<^verbatim>\<open>bytes.fromhex\<close> raises.\<close>

fun fromhex :: "string \<Rightarrow> string option" where
  "fromhex [] = Some []"
| "fromhex [c] = (if c \<in> set whitespace then Some [] else None)"
| "fromhex (c # d # cs) =
     (if c \<in> set whitespace then fromhex (d # cs)
      else if c \<in> set hexdigits \<and> d \<in> set hexdigits
      then map_option (\<lambda>h. lower_ascii c # lower_ascii d # h) (fromhex cs)
      else None)"

definition is_valid :: "string \<Rightarrow> bool" where
  "is_valid s = (length s = 24 \<and> fromhex s \<noteq> None)"

text \<open>The constructor raises on a string that \<open>is_valid\<close> rejects; \<^verbatim>\<open>checkout\<close> calls it
  on accepted strings only.\<close>

definition ObjectId :: "string \<Rightarrow> objectid" where
  "ObjectId s = Oid (case fromhex s of None \<Rightarrow> [] | Some h \<Rightarrow> h)"

fun str_oid :: "objectid \<Rightarrow> string" where
  "str_oid (Oid h) = h"

subsection \<open>Documents of the collection\<close>

text \<open>
  A document comes back from the store as a dictionary. The keys are those of the
  \<^verbatim>\<open>CharacterModel\<close> schema; the fields that the code reads with \<^verbatim>\<open>.get\<close> are optional,
  \<^verbatim>\<open>None\<close> standing for a missing key and for a null value alike. A timestamp field holds
  a datetime or, once rendered, a text.
\<close>

type_synonym datetime = nat

datatype stamp = Datetime datetime | Text string

record fields =
  name :: "string option"
  description :: "string option"
  price :: "real option"
  thumbnail_url :: "string option"
  preview_url :: "string option"
  tags :: "string list"
  formats :: "string list"
  polycount :: "string option"
  rigged :: bool
  animated :: bool
  rating :: "real option"
  downloads :: "int option"
  created_at :: "stamp option"
  updated_at :: "stamp option"

record document = fields +
  oid :: objectid

type_synonym database = "document list option"

datatype HTTPException = HTTPException nat string

text \<open>
  What the endpoints take from their environment: the token that \<^verbatim>\<open>uuid4\<close> draws, whether
  the store raises on the increment of a given document, the identifier and the timestamp
  that the store layer gives a new document, and the rendering of a datetime.
\<close>

record env =
  uuid4 :: string
  update_raises :: "objectid \<Rightarrow> bool"
  new_oid :: "document list \<Rightarrow> objectid"
  new_stamp :: "document list \<Rightarrow> stamp option"
  isoformat :: "datetime \<Rightarrow> string"

subsection \<open>Checkout\<close>

record CheckoutItem =
  item_id :: string
  qty :: int

record CheckoutRequest =
  items :: "CheckoutItem list"

record LineItem =
  li_id :: string
  li_name :: "string option"
  li_qty :: int
  li_price :: real
  line_total :: real
  download_links :: "string option list"

record Receipt =
  order_id :: string
  r_items :: "LineItem list"
  subtotal :: real
  message :: string

text \<open>The dictionary comprehension: a later entry overwrites an earlier one with its key.\<close>

definition qty_map :: "CheckoutItem list \<Rightarrow> (string \<rightharpoonup> int)" where
  "qty_map its = fold (\<lambda>i m. m(item_id i \<mapsto> max 1 (qty i))) its Map.empty"

definition get_qty :: "(string \<rightharpoonup> int) \<Rightarrow> document \<Rightarrow> int" where
  "get_qty qm doc = (case qm (str_oid (oid doc)) of None \<Rightarrow> 1 | Some q \<Rightarrow> q)"

text \<open>\<^verbatim>\<open>find({"_id": {"$in": keys}})\<close>: the documents whose identifier is among the keys, each
  once, in the store's order.\<close>

definition find_in :: "document list \<Rightarrow> objectid list \<Rightarrow> document list" where
  "find_in coll keys = filter (\<lambda>d. oid d \<in> set keys) coll"

text \<open>\<^verbatim>\<open>update_one({"_id": k}, {"$inc": {"downloads": n}})\<close>: the first document with that
  identifier gets the field raised by \<open>n\<close>; a missing field is created with the value \<open>n\<close>.\<close>

definition inc_doc :: "int \<Rightarrow> document \<Rightarrow> document" where
  "inc_doc n d = d\<lparr>downloads := Some ((case downloads d of None \<Rightarrow> 0 | Some c \<Rightarrow> c) + n)\<rparr>"

fun update_one_inc :: "objectid \<Rightarrow> int \<Rightarrow> document list \<Rightarrow> document list" where
  "update_one_inc k n [] = []"
| "update_one_inc k n (d # ds) =
     (if oid d = k then inc_doc n d # ds else d # update_one_inc k n ds)"

text \<open>The first loop over \<^verbatim>\<open>found\<close>: an increment that raises is passed over.\<close>

fun update_downloads ::
  "env \<Rightarrow> (string \<rightharpoonup> int) \<Rightarrow> document list \<Rightarrow> document list \<Rightarrow> document list" where
  "update_downloads e qm [] coll = coll"
| "update_downloads e qm (doc # found) coll =
     (let inc = get_qty qm doc
      in update_downloads e qm found
           (if update_raises e (oid doc) then coll else update_one_inc (oid doc) inc coll))"

text \<open>Python's \<^verbatim>\<open>a or b\<close> on optional strings: \<^verbatim>\<open>None\<close> and the empty string are false.\<close>

definition truthy :: "string option \<Rightarrow> bool" where
  "truthy v = (case v of None \<Rightarrow> False | Some s \<Rightarrow> s \<noteq> [])"

definition py_or :: "string option \<Rightarrow> string option \<Rightarrow> string option" where
  "py_or a b = (if truthy a then a else b)"

definition line_item :: "(string \<rightharpoonup> int) \<Rightarrow> document \<Rightarrow> LineItem" where
  "line_item qm doc =
     (let q = get_qty qm doc;
          p = (case price doc of None \<Rightarrow> 0 | Some x \<Rightarrow> x);
          total = p * real_of_int q
      in \<lparr>li_id = str_oid (oid doc), li_name = name doc, li_qty = q, li_price = p,
          line_total = total,
          download_links = [py_or (preview_url doc) (thumbnail_url doc)]\<rparr>)"

text \<open>The second loop over \<^verbatim>\<open>found\<close>, with its two accumulators.\<close>

fun build_receipt ::
  "(string \<rightharpoonup> int) \<Rightarrow> document list \<Rightarrow> LineItem list \<Rightarrow> real \<Rightarrow> LineItem list \<times> real" where
  "build_receipt qm [] line_items st = (line_items, st)"
| "build_receipt qm (doc # found) line_items st =
     build_receipt qm found (line_items @ [line_item qm doc])
       (st + line_total (line_item qm doc))"

definition lookup_keys :: "string list \<Rightarrow> objectid list" where
  "lookup_keys ids = map ObjectId (filter is_valid ids)"

definition checkout ::
  "env \<Rightarrow> database \<Rightarrow> CheckoutRequest \<Rightarrow> (HTTPException + Receipt) \<times> database" where
  "checkout e db payload =
     (case db of
        None \<Rightarrow> (Inl (HTTPException 500 ''Database not configured''), db)
      | Some coll \<Rightarrow>
          if items payload = [] then (Inl (HTTPException 400 ''No items in checkout''), db)
          else
            let ids = map item_id (items payload);
                qm = qty_map (items payload);
                found = find_in coll (lookup_keys ids)
            in if found = [] then (Inl (HTTPException 404 ''Models not found''), db)
               else
                 let coll' = update_downloads e qm found coll;
                     (line_items, st) = build_receipt qm found [] 0
                 in (Inr \<lparr>order_id = uuid4 e, r_items = line_items, subtotal = st,
                          message = ''Order confirmed. Download links are ready.''\<rparr>,
                     Some coll'))"

subsection \<open>Catalog listing\<close>

text \<open>
  The store evaluates \<^verbatim>\<open>$regex\<close> with a regular-expression engine. The model covers the
  patterns built from ordinary characters and the dot, under the option \<^verbatim>\<open>i\<close>: an ordinary
  character stands for itself in either case, the dot for any character but a newline, and
  the pattern may match anywhere in the subject. A pattern that uses another metacharacter
  is outside the model: \<open>compile\<close> gives \<open>None\<close> for it.
\<close>

datatype atom = Lit char | AnyChar

definition regex_meta :: string where
  "regex_meta = CHR 0x5C # ''^$.|?*+()[]{}''"

fun compile :: "string \<Rightarrow> atom list option" where
  "compile [] = Some []"
| "compile (c # cs) =
     (if c = CHR ''.'' then map_option ((#) AnyChar) (compile cs)
      else if c \<in> set regex_meta then None
      else map_option ((#) (Lit c)) (compile cs))"

fun atom_match_i :: "atom \<Rightarrow> char \<Rightarrow> bool" where
  "atom_match_i (Lit l) c = (lower_ascii l = lower_ascii c)"
| "atom_match_i AnyChar c = (c \<noteq> CHR 0x0A)"

fun match_here :: "atom list \<Rightarrow> string \<Rightarrow> bool" where
  "match_here [] s = True"
| "match_here (a # as) [] = False"
| "match_here (a # as) (c # cs) = (atom_match_i a c \<and> match_here as cs)"

fun search :: "atom list \<Rightarrow> string \<Rightarrow> bool" where
  "search as [] = match_here as []"
| "search as (c # cs) = (match_here as (c # cs) \<or> search as cs)"

text \<open>
  The filter dictionary that \<^verbatim>\<open>list_models\<close> builds: a condition on a key, or an \<^verbatim>\<open>$or\<close> of
  such conditions. A condition on a key holds when one of the strings under that key
  satisfies it: the elements of \<^verbatim>\<open>tags\<close>, or the one string of \<^verbatim>\<open>name\<close> or \<^verbatim>\<open>description\<close>
  when the document has it.
\<close>

datatype cond = In "string list" | Regex string string

datatype clause = Field string cond | Or "(string \<times> cond) list"

type_synonym filt = "clause list"

definition values_of :: "string \<Rightarrow> document \<Rightarrow> string list" where
  "values_of k d =
     (if k = ''tags'' then tags d
      else if k = ''name'' then (case name d of None \<Rightarrow> [] | Some s \<Rightarrow> [s])
      else if k = ''description'' then (case description d of None \<Rightarrow> [] | Some s \<Rightarrow> [s])
      else [])"

fun cond_modelled :: "cond \<Rightarrow> bool" where
  "cond_modelled (In vs) = True"
| "cond_modelled (Regex p opts) = (opts = ''i'' \<and> compile p \<noteq> None)"

fun clause_modelled :: "clause \<Rightarrow> bool" where
  "clause_modelled (Field k c) = cond_modelled c"
| "clause_modelled (Or kcs) = list_all (\<lambda>kc. cond_modelled (snd kc)) kcs"

fun cond_holds :: "cond \<Rightarrow> string list \<Rightarrow> bool" where
  "cond_holds (In vs) xs = list_ex (\<lambda>x. x \<in> set vs) xs"
| "cond_holds (Regex p opts) xs =
     (case compile p of None \<Rightarrow> False | Some as \<Rightarrow> list_ex (search as) xs)"

fun clause_holds :: "clause \<Rightarrow> document \<Rightarrow> bool" where
  "clause_holds (Field k c) d = cond_holds c (values_of k d)"
| "clause_holds (Or kcs) d = list_ex (\<lambda>kc. cond_holds (snd kc) (values_of (fst kc) d)) kcs"

definition matches :: "filt \<Rightarrow> document \<Rightarrow> bool" where
  "matches f d = list_all (\<lambda>c. clause_holds c d) f"

text \<open>
  Modelled from the spec: \<^verbatim>\<open>get_documents\<close> of the module \<^verbatim>\<open>database\<close>, which is not part of
  the sources at hand. It finds with a filter and yields an ordered sequence of up to
  \<open>limit\<close> records. The result is \<open>None\<close> when the filter is outside the modelled patterns.
\<close>

definition get_documents :: "document list \<Rightarrow> filt \<Rightarrow> int \<Rightarrow> document list option" where
  "get_documents coll f limit =
     (if list_all clause_modelled f then Some (take (nat limit) (filter (matches f) coll))
      else None)"

record listed = fields +
  id_str :: string

definition render :: "env \<Rightarrow> stamp option \<Rightarrow> stamp option" where
  "render e v = (case v of Some (Datetime t) \<Rightarrow> Some (Text (isoformat e t)) | _ \<Rightarrow> v)"

definition convert :: "env \<Rightarrow> document \<Rightarrow> listed" where
  "convert e doc =
     \<lparr>name = name doc, description = description doc, price = price doc,
      thumbnail_url = thumbnail_url doc, preview_url = preview_url doc, tags = tags doc,
      formats = formats doc, polycount = polycount doc, rigged = rigged doc,
      animated = animated doc, rating = rating doc, downloads = downloads doc,
      created_at = render e (created_at doc), updated_at = render e (updated_at doc),
      id_str = str_oid (oid doc)\<rparr>"

definition build_filt :: "string option \<Rightarrow> string option \<Rightarrow> filt" where
  "build_filt tag q =
     (if truthy tag then [Field ''tags'' (In [the tag])] else []) @
     (if truthy q
      then [Or [(''name'', Regex (the q) ''i''), (''description'', Regex (the q) ''i'')]]
      else [])"

definition list_models ::
  "env \<Rightarrow> database \<Rightarrow> string option \<Rightarrow> string option \<Rightarrow> int \<Rightarrow> listed list option \<times> database" where
  "list_models e db tag q limit =
     (case db of
        None \<Rightarrow> (Some [], db)
      | Some coll \<Rightarrow>
          (map_option (map (convert e)) (get_documents coll (build_filt tag q) limit), db))"

text \<open>The contract of the listing, in the words of its description: \<open>q\<close> occurs in \<open>s\<close> as a
  substring, letter case aside.\<close>

definition ci_substring :: "string \<Rightarrow> string \<Rightarrow> bool" where
  "ci_substring q s = sublist (map lower_ascii q) (map lower_ascii s)"

definition in_text :: "string \<Rightarrow> string option \<Rightarrow> bool" where
  "in_text q v = (case v of None \<Rightarrow> False | Some s \<Rightarrow> ci_substring q s)"

subsection \<open>Seeding\<close>

text \<open>The schema's constructor, with its defaults: no downloads yet, no timestamps.\<close>

definition CharacterModel ::
  "string \<Rightarrow> string option \<Rightarrow> real \<Rightarrow> string option \<Rightarrow> string option \<Rightarrow> string list \<Rightarrow>
   string list \<Rightarrow> string option \<Rightarrow> bool \<Rightarrow> bool \<Rightarrow> real option \<Rightarrow> fields" where
  "CharacterModel n d p t pv tg f pc r a rt =
     \<lparr>name = Some n, description = d, price = Some p, thumbnail_url = t, preview_url = pv,
      tags = tg, formats = f, polycount = pc, rigged = r, animated = a, rating = rt,
      downloads = Some 0, created_at = None, updated_at = None\<rparr>"

definition demo_items :: "fields list" where
  "demo_items =
     [CharacterModel ''Neon Runner''
        (Some ''Stylized cyberpunk runner with glowing accents'') 29
        (Some ''https://images.unsplash.com/photo-1542751371-adc38448a05e?w=800&q=80&auto=format&fit=crop'')
        (Some ''https://youtu.be/dQw4w9WgXcQ'')
        [''cyberpunk'', ''stylized'', ''game-ready''] [''FBX'', ''GLB'']
        (Some ''28k tris'') True True (Some 4.6),
      CharacterModel ''Forest Guardian''
        (Some ''Fantasy archer with cloak and light armor'') 39
        (Some ''https://images.unsplash.com/photo-1605721911519-3dfeb3be25e7?w=800&q=80&auto=format&fit=crop'')
        None
        [''fantasy'', ''archer'', ''PBR''] [''FBX'', ''OBJ'']
        (Some ''32k tris'') True False (Some 4.8),
      CharacterModel ''Mech Scout''
        (Some ''Compact sci-fi mech with emissive details'') 24
        (Some ''https://images.unsplash.com/photo-1517694712202-14dd9538aa97?w=800&q=80&auto=format&fit=crop'')
        None
        [''sci-fi'', ''mech'', ''low-poly''] [''GLB'']
        (Some ''18k tris'') False False (Some 4.2)]"

text \<open>
  Modelled from the spec: \<^verbatim>\<open>create_document\<close> of the module \<^verbatim>\<open>database\<close>, which is not part
  of the sources at hand. The store inserts the item as one more document and assigns its
  identifier; the store layer may stamp it.
\<close>

definition create_document :: "env \<Rightarrow> fields \<Rightarrow> document list \<Rightarrow> document list" where
  "create_document e item coll =
     coll @ [fields.extend
               (item\<lparr>created_at := new_stamp e coll, updated_at := new_stamp e coll\<rparr>)
               (document.fields (new_oid e coll))]"

record seed_response =
  seeded :: bool
  seed_message :: "string option"
  seed_count :: "int option"

definition seed_demo_models ::
  "env \<Rightarrow> database \<Rightarrow> (HTTPException + seed_response) \<times> database" where
  "seed_demo_models e db =
     (case db of
        None \<Rightarrow> (Inl (HTTPException 500 ''Database not configured''), db)
      | Some coll \<Rightarrow>
          let existing = int (length coll)
          in if existing > 0
             then (Inr \<lparr>seeded = False,
                        seed_message = Some ''Collection already has documents'',
                        seed_count = None\<rparr>, db)
             else (Inr \<lparr>seeded = True, seed_message = None,
                        seed_count = Some (int (length demo_items))\<rparr>,
                   Some (fold (create_document e) demo_items coll)))"

subsection \<open>Notions for stating the properties\<close>

text \<open>The local variable \<^verbatim>\<open>found\<close> of \<^verbatim>\<open>checkout\<close>: the stored items that the request resolves to.\<close>

definition found_docs :: "document list \<Rightarrow> CheckoutRequest \<Rightarrow> document list" where
  "found_docs coll payload = find_in coll (lookup_keys (map item_id (items payload)))"



definition price_of :: "document \<Rightarrow> real" where
  "price_of d = (case price d of None \<Rightarrow> 0 | Some x \<Rightarrow> x)"

text \<open>The tag constraint of a listing: none without a tag, membership with one.\<close>

definition has_tag :: "string option \<Rightarrow> document \<Rightarrow> bool" where
  "has_tag tag d = (case tag of None \<Rightarrow> True | Some t \<Rightarrow> t = [] \<or> t \<in> set (tags d))"

text \<open>A request entry written the way the store prints identifiers.\<close>

definition canonical :: "string \<Rightarrow> bool" where
  "canonical s = (is_valid s \<and> str_oid (ObjectId s) = s)"

text \<open>What one pass of the increment loop, for the found document \<open>f\<close>, does to a stored
  document \<open>d\<close>.\<close>

definition bump :: "env \<Rightarrow> (string \<rightharpoonup> int) \<Rightarrow> document \<Rightarrow> document \<Rightarrow> document" where
  "bump e qm f d =
     (if oid d = oid f \<and> \<not> update_raises e (oid f) then inc_doc (get_qty qm f) d else d)"

subsection \<open>A small store for the examples\<close>

definition example_env :: env where
  "example_env =
     \<lparr>uuid4 = ''3f2b8c1e-0000-4000-8000-000000000001'',
      update_raises = (\<lambda>k. k = Oid ''bbbbbbbbbbbbbbbbbbbbbbbb''),
      new_oid = (\<lambda>coll. Oid (replicate 23 CHR ''0'' @ [hexdigits ! length coll])),
      new_stamp = (\<lambda>coll. Some (Datetime (length coll))),
      isoformat = (\<lambda>t. ''2024-01-01T00:00:0'' @ [hexdigits ! t])\<rparr>"

definition stored_as :: "string \<Rightarrow> fields \<Rightarrow> document" where
  "stored_as h item = fields.extend item (document.fields (Oid h))"

definition doc_a :: document where
  "doc_a = stored_as ''aaaaaaaaaaaaaaaaaaaaaaaa'' (demo_items ! 0)"

definition doc_b :: document where
  "doc_b = stored_as ''bbbbbbbbbbbbbbbbbbbbbbbb'' (demo_items ! 1)"

definition doc_c :: document where
  "doc_c = stored_as ''cccccccccccccccccccccccc''
     ((demo_items ! 2)\<lparr>thumbnail_url := None, downloads := None\<rparr>)"

definition example_store :: "document list" where
  "example_store = [doc_a, doc_b, doc_c]"

definition entry :: "string \<Rightarrow> int \<Rightarrow> CheckoutItem" where
  "entry i n = \<lparr>item_id = i, qty = n\<rparr>"

definition request :: "CheckoutItem list \<Rightarrow> CheckoutRequest" where
  "request its = \<lparr>items = its\<rparr>"

section \<open>Properties\<close>

subsection \<open>The two loops of checkout\<close>

lemma build_receipt_eq:
  "build_receipt qm found ls st =
     (ls @ map (line_item qm) found, st + sum_list (map (\<lambda>d. line_total (line_item qm d)) found))"
  by (induction found arbitrary: ls st) (simp_all add: add.assoc)

lemma checkout_receipt:
  assumes "items payload \<noteq> []" and "found_docs coll payload \<noteq> []"
  shows "checkout e (Some coll) payload =
     (Inr \<lparr>order_id = uuid4 e,
           r_items = map (line_item (qty_map (items payload))) (found_docs coll payload),
           subtotal = sum_list (map (\<lambda>d. line_total (line_item (qty_map (items payload)) d))
                        (found_docs coll payload)),
           message = ''Order confirmed. Download links are ready.''\<rparr>,
      Some (update_downloads e (qty_map (items payload)) (found_docs coll payload) coll))"
  using assms by (simp add: checkout_def found_docs_def Let_def build_receipt_eq)

lemma checkout_none_found:
  assumes "items payload \<noteq> []" and "found_docs coll payload = []"
  shows "checkout e (Some coll) payload =
     (Inl (HTTPException 404 ''Models not found''), Some coll)"
  using assms by (simp add: checkout_def found_docs_def Let_def)

lemma qty_map_snoc:
  "qty_map (its @ [i]) = (qty_map its)(item_id i \<mapsto> max 1 (qty i))"
  by (simp add: qty_map_def)

lemma qty_map_Nil: "qty_map [] = Map.empty"
  by (simp add: qty_map_def)

lemma qty_map_last:
  "qty_map its k =
     (if filter (\<lambda>i. item_id i = k) its = [] then None
      else Some (max 1 (qty (last (filter (\<lambda>i. item_id i = k) its)))))"
  by (induction its rule: rev_induct) (simp_all add: qty_map_Nil qty_map_snoc)

lemma get_qty_ge: "1 \<le> get_qty (qty_map its) d"
  by (simp add: get_qty_def qty_map_last)


lemma found_docs_nonempty_iff:
  "found_docs coll payload \<noteq> [] \<longleftrightarrow>
   (\<exists>i \<in> set (items payload). is_valid (item_id i) \<and> ObjectId (item_id i) \<in> oid ` set coll)"
  unfolding found_docs_def find_in_def lookup_keys_def filter_empty_conv
  by (auto simp: image_iff) metis+

lemma found_docs_set:
  "set (found_docs coll payload) =
     {d \<in> set coll. \<exists>i \<in> set (items payload). is_valid (item_id i) \<and> oid d = ObjectId (item_id i)}"
  by (auto simp: found_docs_def find_in_def lookup_keys_def)

lemma found_docs_distinct:
  "distinct (map oid coll) \<Longrightarrow> distinct (map oid (found_docs coll payload))"
  by (simp add: found_docs_def find_in_def distinct_map_filter)

lemma line_item_sel:
  "li_id (line_item qm d) = str_oid (oid d)"
  "li_name (line_item qm d) = name d"
  "li_qty (line_item qm d) = get_qty qm d"
  "li_price (line_item qm d) = price_of d"
  "line_total (line_item qm d) = price_of d * real_of_int (get_qty qm d)"
  "download_links (line_item qm d) = [py_or (preview_url d) (thumbnail_url d)]"
  by (simp_all add: line_item_def Let_def price_of_def)

lemma str_oid_inj: "str_oid a = str_oid b \<longleftrightarrow> a = b"
  by (cases a; cases b) simp

lemma filter_key_unique:
  "distinct (map f xs) \<Longrightarrow> x \<in> set xs \<Longrightarrow> filter (\<lambda>y. f y = f x) xs = [x]"
proof (induction xs)
  case Nil
  then show ?case by simp
next
  case (Cons a xs)
  show ?case
  proof (cases "a = x")
    case True
    from Cons.prems have "f a \<notin> f ` set xs" by simp
    with True have "\<forall>y \<in> set xs. f y \<noteq> f x" by (metis image_eqI)
    then have "filter (\<lambda>y. f y = f x) xs = []" by (simp add: filter_empty_conv)
    with True show ?thesis by simp
  next
    case False
    with Cons.prems have "x \<in> set xs" and "f a \<noteq> f x" by auto
    with Cons show ?thesis by simp
  qed
qed

subsection \<open>The increments as one pass over the collection\<close>

lemma oid_inc_doc [simp]: "oid (inc_doc n d) = oid d"
  by (simp add: inc_doc_def)


lemma oid_bump [simp]: "oid (bump e qm f d) = oid d"
  by (simp add: bump_def)

lemma oid_fold_bump [simp]: "oid (fold (bump e qm) fs d) = oid d"
  by (induction fs arbitrary: d) simp_all




subsection \<open>The example store\<close>

lemma stored_as_sel:
  "oid (stored_as h item) = Oid h"
  "price (stored_as h item) = price item"
  "name (stored_as h item) = name item"
  "description (stored_as h item) = description item"
  "preview_url (stored_as h item) = preview_url item"
  "thumbnail_url (stored_as h item) = thumbnail_url item"
  "downloads (stored_as h item) = downloads item"
  "tags (stored_as h item) = tags item"
  by (simp_all add: stored_as_def fields.defs document.defs)

lemma is_valid_examples:
  "is_valid ''aaaaaaaaaaaaaaaaaaaaaaaa''"
  "is_valid ''bbbbbbbbbbbbbbbbbbbbbbbb''"
  "is_valid ''cccccccccccccccccccccccc''"
  "is_valid ''AAAAAAAAAAAAAAAAAAAAAAAA''"
  "\<not> is_valid ''not-an-id''"
  "is_valid ''dddddddddddddddddddddddd''"
  "is_valid ''aa aa aa aa aa aa aa aa ''"
  by code_simp+

lemma ObjectId_examples:
  "ObjectId ''aaaaaaaaaaaaaaaaaaaaaaaa'' = Oid ''aaaaaaaaaaaaaaaaaaaaaaaa''"
  "ObjectId ''bbbbbbbbbbbbbbbbbbbbbbbb'' = Oid ''bbbbbbbbbbbbbbbbbbbbbbbb''"
  "ObjectId ''cccccccccccccccccccccccc'' = Oid ''cccccccccccccccccccccccc''"
  "ObjectId ''AAAAAAAAAAAAAAAAAAAAAAAA'' = Oid ''aaaaaaaaaaaaaaaaaaaaaaaa''"
  "ObjectId ''dddddddddddddddddddddddd'' = Oid ''dddddddddddddddddddddddd''"
  "ObjectId ''aa aa aa aa aa aa aa aa '' = Oid ''aaaaaaaaaaaaaaaa''"
  by code_simp+

lemma example_oids:
  "map oid example_store =
     [Oid ''aaaaaaaaaaaaaaaaaaaaaaaa'', Oid ''bbbbbbbbbbbbbbbbbbbbbbbb'',
      Oid ''cccccccccccccccccccccccc'']"
  by (simp add: example_store_def doc_a_def doc_b_def doc_c_def stored_as_sel)

subsection \<open>Receipts\<close>

text \<open>
  C1. When the store is there, the request has entries and one of their identifiers resolves
  to a stored item, checkout returns a receipt with one line for each resolved item, carrying
  the item's identifier and stored price; the subtotal is the sum over these lines of price
  times quantity, and every quantity is at least 1, whatever quantities were requested.
\<close>

theorem checkout_subtotal:
  assumes "items payload \<noteq> []"
    and "\<exists>i \<in> set (items payload). is_valid (item_id i) \<and> ObjectId (item_id i) \<in> oid ` set coll"
  shows "\<exists>r. fst (checkout e (Some coll) payload) = Inr r
    \<and> r_items r \<noteq> []
    \<and> list_all2 (\<lambda>l d. li_id l = str_oid (oid d) \<and> li_price l = price_of d)
         (r_items r) (found_docs coll payload)
    \<and> subtotal r = (\<Sum>l\<leftarrow>r_items r. li_price l * real_of_int (li_qty l))
    \<and> list_all (\<lambda>l. 1 \<le> li_qty l) (r_items r)"
proof -
  from assms(2) have ne: "found_docs coll payload \<noteq> []"
    by (simp add: found_docs_nonempty_iff)
  let ?qm = "qty_map (items payload)"
  let ?found = "found_docs coll payload"
  have lines: "list_all2 (\<lambda>l d. li_id l = str_oid (oid d) \<and> li_price l = price_of d)
      (map (line_item ?qm) ?found) ?found"
    by (simp add: list_all2_map1 line_item_sel list_all2_same)
  have total: "sum_list (map (\<lambda>d. line_total (line_item ?qm d)) ?found) =
      (\<Sum>l\<leftarrow>map (line_item ?qm) ?found. li_price l * real_of_int (li_qty l))"
    by (simp add: line_item_sel comp_def)
  have ge: "list_all (\<lambda>l. 1 \<le> li_qty l) (map (line_item ?qm) ?found)"
    by (simp add: list_all_iff line_item_sel get_qty_ge)
  show ?thesis
    using ne lines total ge by (simp add: checkout_receipt[OF assms(1) ne])
qed

theorem checkout_subtotal_witness:
  "items (request [entry ''aaaaaaaaaaaaaaaaaaaaaaaa'' 0, entry ''not-an-id'' 5,
                   entry ''cccccccccccccccccccccccc'' (- 2)]) \<noteq> []
   \<and> (\<exists>i \<in> set (items (request [entry ''aaaaaaaaaaaaaaaaaaaaaaaa'' 0, entry ''not-an-id'' 5,
                   entry ''cccccccccccccccccccccccc'' (- 2)])).
         is_valid (item_id i) \<and> ObjectId (item_id i) \<in> oid ` set example_store)
   \<and> (\<exists>r. fst (checkout example_env (Some example_store)
              (request [entry ''aaaaaaaaaaaaaaaaaaaaaaaa'' 0, entry ''not-an-id'' 5,
                        entry ''cccccccccccccccccccccccc'' (- 2)])) = Inr r
        \<and> r_items r \<noteq> []
        \<and> subtotal r = (\<Sum>l\<leftarrow>r_items r. li_price l * real_of_int (li_qty l))
        \<and> list_all (\<lambda>l. 1 \<le> li_qty l) (r_items r))"
proof -
  let ?p = "request [entry ''aaaaaaaaaaaaaaaaaaaaaaaa'' 0, entry ''not-an-id'' 5,
                     entry ''cccccccccccccccccccccccc'' (- 2)]"
  have h1: "items ?p \<noteq> []"
    by (simp add: request_def)
  have "ObjectId ''aaaaaaaaaaaaaaaaaaaaaaaa'' \<in> set (map oid example_store)"
    by (simp add: example_oids ObjectId_examples)
  then have h2: "\<exists>i \<in> set (items ?p). is_valid (item_id i) \<and>
      ObjectId (item_id i) \<in> oid ` set example_store"
    by (simp add: request_def entry_def is_valid_examples)
  show ?thesis
    using h1 h2 checkout_subtotal[OF h1 h2, of example_env] by blast
qed

lemma checkout_example_receipt:
  "map (\<lambda>l. (li_id l, li_qty l, line_total l))
     (case fst (checkout example_env (Some example_store)
        (request [entry ''aaaaaaaaaaaaaaaaaaaaaaaa'' 0, entry ''not-an-id'' 5,
                  entry ''cccccccccccccccccccccccc'' (- 2)])) of
        Inl err \<Rightarrow> [] | Inr r \<Rightarrow> r_items r) =
     [(''aaaaaaaaaaaaaaaaaaaaaaaa'', 1, 29), (''cccccccccccccccccccccccc'', 1, 24)]"
  by code_simp

text \<open>
  C2. The receipt is to have, for an identifier that several entries of the request name,
  exactly one line, with the quantity \<open>max 1 q\<close> of the last of these entries. The code
  departs from this for an identifier that is not spelled the way the store prints it. The
  store holds the item \<open>aaaaaaaaaaaaaaaaaaaaaaaa\<close>; the request names it twice in capital
  letters, with the quantities 1 and 3. The lookup accepts the spelling and resolves the
  item, but the quantity is read under the printed identifier, which is no key of the
  quantity mapping, and falls to the default: the one line of the receipt has the quantity
  1, and not 3.
\<close>

theorem checkout_uppercase_identifier:
  "fst (checkout example_env (Some [doc_a])
     (request [entry ''AAAAAAAAAAAAAAAAAAAAAAAA'' 1, entry ''AAAAAAAAAAAAAAAAAAAAAAAA'' 3])) =
   Inr \<lparr>order_id = ''3f2b8c1e-0000-4000-8000-000000000001'',
        r_items = [\<lparr>li_id = ''aaaaaaaaaaaaaaaaaaaaaaaa'', li_name = Some ''Neon Runner'',
                     li_qty = 1, li_price = 29, line_total = 29,
                     download_links = [Some ''https://youtu.be/dQw4w9WgXcQ'']\<rparr>],
        subtotal = 29,
        message = ''Order confirmed. Download links are ready.''\<rparr>"
  by code_simp

lemma checkout_uppercase_single:
  "map li_qty
     (case fst (checkout example_env (Some [doc_a])
        (request [entry ''AAAAAAAAAAAAAAAAAAAAAAAA'' 3])) of
        Inl err \<Rightarrow> [] | Inr r \<Rightarrow> r_items r) = [1]"
  by code_simp

text \<open>
  Where the spelling is the printed one, the last entry does win. The store holds no two
  documents with one identifier. When an entry of the request names a stored item by its
  identifier as the store prints it (24 lowercase hexadecimal digits), the receipt has
  exactly one line with that identifier, and its quantity is \<open>max 1 q\<close> for the quantity
  \<open>q\<close> of the last entry with that identifier in the order of the request; the quantities
  are not added up.
\<close>

theorem checkout_last_write_wins:
  assumes "distinct (map oid coll)"
    and "i \<in> set (items payload)"
    and "canonical (item_id i)"
    and "ObjectId (item_id i) \<in> oid ` set coll"
  shows "\<exists>r l. fst (checkout e (Some coll) payload) = Inr r
    \<and> filter (\<lambda>l. li_id l = item_id i) (r_items r) = [l]
    \<and> li_qty l = max 1 (qty (last (filter (\<lambda>j. item_id j = item_id i) (items payload))))"
proof -
  let ?qm = "qty_map (items payload)"
  let ?found = "found_docs coll payload"
  from assms(3) have valid: "is_valid (item_id i)"
    and canon: "str_oid (ObjectId (item_id i)) = item_id i"
    by (simp_all add: canonical_def)
  from assms(4) obtain d where d: "d \<in> set coll" "oid d = ObjectId (item_id i)"
    by auto
  with assms(2) valid have dfound: "d \<in> set ?found"
    by (auto simp: found_docs_set)
  then have ne: "?found \<noteq> []" by auto
  from assms(2) have items_ne: "items payload \<noteq> []" by auto
  have key: "str_oid (oid d) = item_id i"
    using d canon by simp
  have "filter (\<lambda>l. li_id l = item_id i) (map (line_item ?qm) ?found) =
      map (line_item ?qm) (filter (\<lambda>x. oid x = oid d) ?found)"
    by (simp add: filter_map comp_def line_item_sel key[symmetric] str_oid_inj)
  also have "filter (\<lambda>x. oid x = oid d) ?found = [d]"
    by (rule filter_key_unique[OF found_docs_distinct[OF assms(1)] dfound])
  finally have one: "filter (\<lambda>l. li_id l = item_id i) (map (line_item ?qm) ?found) =
      [line_item ?qm d]" by simp
  from assms(2) have "filter (\<lambda>j. item_id j = item_id i) (items payload) \<noteq> []"
    by (auto simp: filter_empty_conv)
  then have "get_qty ?qm d =
      max 1 (qty (last (filter (\<lambda>j. item_id j = item_id i) (items payload))))"
    by (simp add: get_qty_def key qty_map_last)
  with one show ?thesis
    by (simp add: checkout_receipt[OF items_ne ne] line_item_sel)
qed

theorem checkout_last_write_wins_witness:
  "distinct (map oid example_store)
   \<and> entry ''aaaaaaaaaaaaaaaaaaaaaaaa'' 3 \<in>
       set (items (request [entry ''aaaaaaaaaaaaaaaaaaaaaaaa'' 1, entry ''aaaaaaaaaaaaaaaaaaaaaaaa'' 3]))
   \<and> canonical ''aaaaaaaaaaaaaaaaaaaaaaaa''
   \<and> ObjectId ''aaaaaaaaaaaaaaaaaaaaaaaa'' \<in> oid ` set example_store
   \<and> (\<exists>r l. fst (checkout example_env (Some example_store)
          (request [entry ''aaaaaaaaaaaaaaaaaaaaaaaa'' 1, entry ''aaaaaaaaaaaaaaaaaaaaaaaa'' 3])) = Inr r
        \<and> filter (\<lambda>l. li_id l = ''aaaaaaaaaaaaaaaaaaaaaaaa'') (r_items r) = [l]
        \<and> li_qty l = 3)"
proof -
  let ?a = "''aaaaaaaaaaaaaaaaaaaaaaaa''"
  let ?p = "request [entry ?a 1, entry ?a 3]"
  have h1: "distinct (map oid example_store)"
    by (simp add: example_oids)
  have h2: "entry ?a 3 \<in> set (items ?p)"
    by (simp add: request_def)
  have c: "canonical ?a"
    by (simp add: canonical_def is_valid_examples ObjectId_examples)
  then have h3: "canonical (item_id (entry ?a 3))"
    by (simp add: entry_def)
  have "ObjectId ?a \<in> set (map oid example_store)"
    by (simp add: example_oids ObjectId_examples)
  then have o: "ObjectId ?a \<in> oid ` set example_store"
    by simp
  then have h4: "ObjectId (item_id (entry ?a 3)) \<in> oid ` set example_store"
    by (simp add: entry_def)
  have last: "max 1 (qty (last (filter (\<lambda>j. item_id j = ?a) (items ?p)))) = 3"
    by (simp add: request_def entry_def)
  have id: "item_id (entry ?a 3) = ?a"
    by (simp add: entry_def)
  from checkout_last_write_wins[OF h1 h2 h3 h4, of example_env]
  have "\<exists>r l. fst (checkout example_env (Some example_store) ?p) = Inr r
        \<and> filter (\<lambda>l. li_id l = ?a) (r_items r) = [l] \<and> li_qty l = 3"
    unfolding id last .
  with h1 h2 c o show ?thesis by blast
qed



lemma checkout_example_downloads:
  "map_option (map downloads)
     (snd (checkout example_env (Some example_store)
        (request [entry ''aaaaaaaaaaaaaaaaaaaaaaaa'' 2, entry ''bbbbbbbbbbbbbbbbbbbbbbbb'' 4]))) =
   Some [Some 2, Some 0, None]"
  by code_simp

subsection \<open>Failures of checkout\<close>

text \<open>
  C4, as stated, fails when no store is configured: the check of the store comes first, and
  a request whose only identifier is malformed is then answered with the status 500, not
  404.
\<close>

theorem checkout_unresolved_without_store:
  "items (request [entry ''not-an-id'' 1]) \<noteq> []
   \<and> \<not> is_valid ''not-an-id''
   \<and> fst (checkout example_env None (request [entry ''not-an-id'' 1])) =
       Inl (HTTPException 500 ''Database not configured'')
   \<and> fst (checkout example_env None (request [entry ''not-an-id'' 1])) \<noteq>
       Inl (HTTPException 404 ''Models not found'')"
  by (simp add: checkout_def request_def is_valid_examples)

text \<open>
  C4, amended. For a request that has entries: with the store there, when no identifier of
  the request resolves to a stored item, be it rejected by the validity check or absent
  from the store, checkout fails with the status 404 and leaves the store as it was. A
  rejected identifier is left out of the lookup and never fails the request by itself: as
  soon as one identifier resolves, checkout returns a receipt, whatever the other
  identifiers are. Without a store the request fails with the status 500.
\<close>

theorem checkout_not_found:
  assumes "items payload \<noteq> []"
  shows "((\<forall>i \<in> set (items payload).
             is_valid (item_id i) \<longrightarrow> ObjectId (item_id i) \<notin> oid ` set coll) \<longrightarrow>
          checkout e (Some coll) payload =
            (Inl (HTTPException 404 ''Models not found''), Some coll))
    \<and> ((\<exists>i \<in> set (items payload).
             is_valid (item_id i) \<and> ObjectId (item_id i) \<in> oid ` set coll) \<longrightarrow>
          (\<exists>r. fst (checkout e (Some coll) payload) = Inr r))
    \<and> set (lookup_keys (map item_id (items payload))) =
          ObjectId ` {s \<in> item_id ` set (items payload). is_valid s}
    \<and> checkout e None payload = (Inl (HTTPException 500 ''Database not configured''), None)"
proof (intro conjI impI)
  assume "\<forall>i \<in> set (items payload).
    is_valid (item_id i) \<longrightarrow> ObjectId (item_id i) \<notin> oid ` set coll"
  then have "found_docs coll payload = []"
    using found_docs_nonempty_iff[of coll payload] by blast
  then show "checkout e (Some coll) payload =
      (Inl (HTTPException 404 ''Models not found''), Some coll)"
    by (rule checkout_none_found[OF assms])
next
  assume "\<exists>i \<in> set (items payload).
    is_valid (item_id i) \<and> ObjectId (item_id i) \<in> oid ` set coll"
  then have "found_docs coll payload \<noteq> []"
    by (simp add: found_docs_nonempty_iff)
  then show "\<exists>r. fst (checkout e (Some coll) payload) = Inr r"
    by (simp add: checkout_receipt[OF assms])
next
  show "set (lookup_keys (map item_id (items payload))) =
      ObjectId ` {s \<in> item_id ` set (items payload). is_valid s}"
    by (auto simp: lookup_keys_def)
next
  show "checkout e None payload = (Inl (HTTPException 500 ''Database not configured''), None)"
    by (simp add: checkout_def)
qed

theorem checkout_not_found_witness:
  "items (request [entry ''not-an-id'' 1, entry ''dddddddddddddddddddddddd'' 2,
                   entry ''aa aa aa aa aa aa aa aa '' 3]) \<noteq> []
   \<and> \<not> is_valid ''not-an-id''
   \<and> ObjectId ''dddddddddddddddddddddddd'' \<notin> oid ` set example_store
   \<and> ObjectId ''aa aa aa aa aa aa aa aa '' \<notin> oid ` set example_store
   \<and> checkout example_env (Some example_store)
         (request [entry ''not-an-id'' 1, entry ''dddddddddddddddddddddddd'' 2,
                   entry ''aa aa aa aa aa aa aa aa '' 3]) =
       (Inl (HTTPException 404 ''Models not found''), Some example_store)
   \<and> checkout example_env None
         (request [entry ''not-an-id'' 1, entry ''dddddddddddddddddddddddd'' 2,
                   entry ''aa aa aa aa aa aa aa aa '' 3]) =
       (Inl (HTTPException 500 ''Database not configured''), None)"
proof -
  let ?p = "request [entry ''not-an-id'' 1, entry ''dddddddddddddddddddddddd'' 2,
                     entry ''aa aa aa aa aa aa aa aa '' 3]"
  have h1: "items ?p \<noteq> []"
    by (simp add: request_def)
  have "ObjectId ''dddddddddddddddddddddddd'' \<notin> set (map oid example_store)"
    by (simp add: example_oids ObjectId_examples)
  then have absent: "ObjectId ''dddddddddddddddddddddddd'' \<notin> oid ` set example_store"
    by simp
  have "ObjectId ''aa aa aa aa aa aa aa aa '' \<notin> set (map oid example_store)"
    by (simp add: example_oids ObjectId_examples)
  then have short: "ObjectId ''aa aa aa aa aa aa aa aa '' \<notin> oid ` set example_store"
    by simp
  from absent short have h2: "\<forall>i \<in> set (items ?p).
      is_valid (item_id i) \<longrightarrow> ObjectId (item_id i) \<notin> oid ` set example_store"
    by (simp add: request_def entry_def is_valid_examples)
  show ?thesis
    using h1 h2 absent short is_valid_examples(5)
      checkout_not_found[OF h1, of example_store example_env] by blast
qed

text \<open>
  C5, as stated, fails when no store is configured: the check of the store comes first, and
  a request without entries is then answered with the status 500, not 400.
\<close>

theorem checkout_empty_without_store:
  "items (request []) = []
   \<and> fst (checkout example_env None (request [])) =
       Inl (HTTPException 500 ''Database not configured'')
   \<and> fst (checkout example_env None (request [])) \<noteq>
       Inl (HTTPException 400 ''No items in checkout'')"
  by (simp add: checkout_def request_def)

text \<open>
  C5, amended. With the store there, a request whose list of items is empty fails with the
  status 400; no receipt is returned and the store is left as it was. Without a store the
  same request fails with the status 500.
\<close>

theorem checkout_empty:
  assumes "items payload = []"
  shows "checkout e (Some coll) payload =
       (Inl (HTTPException 400 ''No items in checkout''), Some coll)
    \<and> checkout e None payload = (Inl (HTTPException 500 ''Database not configured''), None)"
  using assms by (simp add: checkout_def)

theorem checkout_empty_witness:
  "items (request []) = []
   \<and> checkout example_env (Some example_store) (request []) =
       (Inl (HTTPException 400 ''No items in checkout''), Some example_store)
   \<and> checkout example_env None (request []) =
       (Inl (HTTPException 500 ''Database not configured''), None)"
proof -
  have h: "items (request []) = []"
    by (simp add: request_def)
  show ?thesis
    using h checkout_empty[OF h, of example_env example_store] by simp
qed

text \<open>
  C10. Whenever checkout fails, the store it returns is the store it was given, and the
  failure is one of three: no store (500), no items (400), nothing resolved (404).
\<close>

theorem checkout_failure_keeps_store:
  assumes "fst (checkout e db payload) = Inl err"
  shows "snd (checkout e db payload) = db
    \<and> err \<in> {HTTPException 500 ''Database not configured'',
              HTTPException 400 ''No items in checkout'',
              HTTPException 404 ''Models not found''}"
proof (cases db)
  case None
  with assms show ?thesis by (auto simp: checkout_def)
next
  case (Some coll)
  show ?thesis
  proof (cases "items payload = []")
    case True
    with Some assms show ?thesis by (auto simp: checkout_def)
  next
    case ne: False
    show ?thesis
    proof (cases "found_docs coll payload = []")
      case True
      with Some assms ne show ?thesis by (auto simp: checkout_none_found)
    next
      case False
      with Some assms ne show ?thesis by (simp add: checkout_receipt)
    qed
  qed
qed

theorem checkout_failure_keeps_store_witness:
  "fst (checkout example_env (Some example_store) (request [entry ''not-an-id'' 7])) =
     Inl (HTTPException 404 ''Models not found'')
   \<and> snd (checkout example_env (Some example_store) (request [entry ''not-an-id'' 7])) =
       Some example_store"
proof -
  have h: "fst (checkout example_env (Some example_store) (request [entry ''not-an-id'' 7])) =
     Inl (HTTPException 404 ''Models not found'')"
    by code_simp
  show ?thesis
    using h checkout_failure_keeps_store[OF h] by simp
qed

subsection \<open>Download references\<close>

text \<open>
  C6. Each line of a receipt stands for one resolved item and carries exactly one download
  reference: the item's preview reference if it has one, else its thumbnail reference if it
  has one, else none. Python's \<^verbatim>\<open>or\<close> decides what an item has: a reference that is
  missing, null or the empty text counts as none. For an item whose preview reference is
  not the empty text this is the preview reference when it is there and the thumbnail
  field otherwise.
\<close>

theorem checkout_download_reference:
  assumes "items payload \<noteq> []" and "found_docs coll payload \<noteq> []"
  shows "\<exists>r. fst (checkout e (Some coll) payload) = Inr r
    \<and> list_all2 (\<lambda>l d. li_id l = str_oid (oid d) \<and>
         (\<exists>x. download_links l = [x] \<and>
            (if truthy (preview_url d) then x = preview_url d
             else if truthy (thumbnail_url d) then x = thumbnail_url d
             else \<not> truthy x) \<and>
            (preview_url d \<noteq> Some [] \<longrightarrow>
               x = (case preview_url d of None \<Rightarrow> thumbnail_url d | Some p \<Rightarrow> Some p))))
       (r_items r) (found_docs coll payload)"
proof -
  have "list_all2 (\<lambda>l d. li_id l = str_oid (oid d) \<and>
         (\<exists>x. download_links l = [x] \<and>
            (if truthy (preview_url d) then x = preview_url d
             else if truthy (thumbnail_url d) then x = thumbnail_url d
             else \<not> truthy x) \<and>
            (preview_url d \<noteq> Some [] \<longrightarrow>
               x = (case preview_url d of None \<Rightarrow> thumbnail_url d | Some p \<Rightarrow> Some p))))
       (map (line_item (qty_map (items payload))) (found_docs coll payload))
       (found_docs coll payload)"
    by (auto simp: list_all2_map1 line_item_sel list_all2_same py_or_def truthy_def
        split: option.splits)
  then show ?thesis by (simp add: checkout_receipt[OF assms])
qed

theorem checkout_download_reference_witness:
  "items (request [entry ''aaaaaaaaaaaaaaaaaaaaaaaa'' 1, entry ''bbbbbbbbbbbbbbbbbbbbbbbb'' 1,
                   entry ''cccccccccccccccccccccccc'' 1]) \<noteq> []
   \<and> found_docs example_store
       (request [entry ''aaaaaaaaaaaaaaaaaaaaaaaa'' 1, entry ''bbbbbbbbbbbbbbbbbbbbbbbb'' 1,
                 entry ''cccccccccccccccccccccccc'' 1]) = [doc_a, doc_b, doc_c]
   \<and> (\<exists>r. fst (checkout example_env (Some example_store)
          (request [entry ''aaaaaaaaaaaaaaaaaaaaaaaa'' 1, entry ''bbbbbbbbbbbbbbbbbbbbbbbb'' 1,
                    entry ''cccccccccccccccccccccccc'' 1])) = Inr r
        \<and> list_all2 (\<lambda>l d. li_id l = str_oid (oid d) \<and>
             (\<exists>x. download_links l = [x] \<and>
                (if truthy (preview_url d) then x = preview_url d
                 else if truthy (thumbnail_url d) then x = thumbnail_url d
                 else \<not> truthy x) \<and>
                (preview_url d \<noteq> Some [] \<longrightarrow>
                   x = (case preview_url d of None \<Rightarrow> thumbnail_url d | Some p \<Rightarrow> Some p))))
           (r_items r) [doc_a, doc_b, doc_c])"
proof -
  let ?p = "request [entry ''aaaaaaaaaaaaaaaaaaaaaaaa'' 1, entry ''bbbbbbbbbbbbbbbbbbbbbbbb'' 1,
                     entry ''cccccccccccccccccccccccc'' 1]"
  have h1: "items ?p \<noteq> []"
    by (simp add: request_def)
  have f: "found_docs example_store ?p = [doc_a, doc_b, doc_c]"
    by code_simp
  then have h2: "found_docs example_store ?p \<noteq> []"
    by simp
  show ?thesis
    using h1 f checkout_download_reference[OF h1 h2, of example_env] by simp
qed

lemma checkout_example_links:
  "map download_links
     (case fst (checkout example_env (Some example_store)
        (request [entry ''aaaaaaaaaaaaaaaaaaaaaaaa'' 1, entry ''bbbbbbbbbbbbbbbbbbbbbbbb'' 1,
                  entry ''cccccccccccccccccccccccc'' 1])) of
        Inl err \<Rightarrow> [] | Inr r \<Rightarrow> r_items r) =
     [[Some ''https://youtu.be/dQw4w9WgXcQ''],
      [Some ''https://images.unsplash.com/photo-1605721911519-3dfeb3be25e7?w=800&q=80&auto=format&fit=crop''],
      [None]]"
  by code_simp

subsection \<open>Catalog listing\<close>

lemma compile_plain:
  "list_all (\<lambda>c. c \<notin> set regex_meta) q \<Longrightarrow> compile q = Some (map Lit q)"
  by (induction q) (auto simp: regex_meta_def)

lemma match_here_Lit:
  "match_here (map Lit q) s = prefix (map lower_ascii q) (map lower_ascii s)"
proof (induction q arbitrary: s)
  case Nil
  then show ?case by simp
next
  case (Cons c q)
  then show ?case by (cases s) auto
qed

lemma search_Lit:
  "search (map Lit q) s = ci_substring q s"
proof (induction s)
  case Nil
  then show ?case by (cases q) (simp_all add: ci_substring_def)
next
  case (Cons c s)
  then show ?case
    by (simp add: ci_substring_def sublist_Cons_right match_here_Lit del: match_here.simps)
qed

lemma search_values:
  "list_ex (search (map Lit q)) (values_of ''name'' d) = in_text q (name d)"
  "list_ex (search (map Lit q)) (values_of ''description'' d) = in_text q (description d)"
  by (simp_all add: values_of_def in_text_def search_Lit split: option.splits)

lemma tag_values:
  "list_ex (\<lambda>x. x = t) (values_of ''tags'' d) = (t \<in> set (tags d))"
  by (auto simp: values_of_def list_ex_iff)

lemma build_filt_modelled:
  "list_all (\<lambda>c. c \<notin> set regex_meta) q \<Longrightarrow> list_all clause_modelled (build_filt tag (Some q))"
  by (simp add: build_filt_def compile_plain)

lemma build_filt_matches:
  assumes "list_all (\<lambda>c. c \<notin> set regex_meta) q"
  shows "matches (build_filt tag (Some q)) =
     (\<lambda>d. has_tag tag d \<and> (q = [] \<or> in_text q (name d) \<or> in_text q (description d)))"
proof
  fix d
  show "matches (build_filt tag (Some q)) d =
     (has_tag tag d \<and> (q = [] \<or> in_text q (name d) \<or> in_text q (description d)))"
    by (cases tag)
       (auto simp: build_filt_def truthy_def matches_def has_tag_def compile_plain[OF assms]
          search_values tag_values)
qed

text \<open>
  C7, as stated, fails for a \<open>q\<close> with a metacharacter: the store reads \<open>q\<close> as a regular
  expression, not as a literal text. The listing for \<open>ne.n\<close> returns the item named
  \<open>Neon Runner\<close>, although the text \<open>ne.n\<close> occurs neither in its name nor in its
  description.
\<close>

theorem list_models_pattern_query:
  "fst (list_models example_env (Some example_store) None (Some ''ne.n'') 50) =
     Some [convert example_env doc_a]
   \<and> \<not> in_text ''ne.n'' (name doc_a) \<and> \<not> in_text ''ne.n'' (description doc_a)"
  by code_simp

text \<open>
  C7, amended. For a \<open>q\<close> without any metacharacter of regular expressions, the listing is
  made of the first \<open>limit\<close> stored items, in the store's order, that carry the tag when
  one is given and in whose name or description \<open>q\<close> occurs as a substring, letter case
  aside; an empty \<open>q\<close> filters nothing out. The store is left as it was.
\<close>

theorem list_models_plain_query:
  assumes "list_all (\<lambda>c. c \<notin> set regex_meta) q"
  shows "list_models e (Some coll) tag (Some q) limit =
     (Some (map (convert e) (take (nat limit)
        (filter (\<lambda>d. has_tag tag d \<and>
                      (q = [] \<or> in_text q (name d) \<or> in_text q (description d))) coll))),
      Some coll)"
  by (simp add: list_models_def get_documents_def build_filt_modelled[OF assms]
      build_filt_matches[OF assms])

theorem list_models_plain_query_witness:
  "list_all (\<lambda>c. c \<notin> set regex_meta) ''neon''
   \<and> list_models example_env (Some example_store) None (Some ''neon'') 50 =
       (Some [convert example_env doc_a], Some example_store)"
proof -
  have h: "list_all (\<lambda>c. c \<notin> set regex_meta) ''neon''"
    by (simp add: regex_meta_def)
  have f: "filter (\<lambda>d. has_tag None d \<and>
        (''neon'' = [] \<or> in_text ''neon'' (name d) \<or> in_text ''neon'' (description d)))
        example_store = [doc_a]"
    by code_simp
  have r: "list_models example_env (Some example_store) None (Some ''neon'') 50 =
      (Some (map (convert example_env) (take (nat 50) [doc_a])), Some example_store)"
    using list_models_plain_query[OF h, of example_env example_store None 50]
    unfolding f .
  show ?thesis
    using h by (simp add: r)
qed

text \<open>
  C8. Without a store the listing is the empty sequence, whatever the tag, the text and the
  limit are; it is no failure, and there is no store to write to. The listing of an empty
  store without filters is the empty sequence as well, and the store stays empty.
\<close>

theorem list_models_unavailable:
  "list_models e None tag q limit = (Some [], None)
   \<and> list_models e (Some []) None None limit = (Some [], Some [])"
  by (simp add: list_models_def get_documents_def build_filt_def truthy_def)

theorem list_models_unavailable_witness:
  "list_models example_env None (Some ''fantasy'') (Some ''neon'') 50 = (Some [], None)"
  using list_models_unavailable[of example_env "Some ''fantasy''" "Some ''neon''" 50]
  by simp

subsection \<open>Seeding\<close>

lemma create_document_fields:
  "map fields.truncate (create_document e item coll) =
     map fields.truncate coll @
       [item\<lparr>created_at := new_stamp e coll, updated_at := new_stamp e coll\<rparr>]"
  by (simp add: create_document_def fields.defs)

lemma length_create_document:
  "length (create_document e item coll) = Suc (length coll)"
  by (simp add: create_document_def)

lemma seed_nonempty:
  "coll \<noteq> [] \<Longrightarrow>
   seed_demo_models e (Some coll) =
     (Inr \<lparr>seeded = False, seed_message = Some ''Collection already has documents'',
           seed_count = None\<rparr>, Some coll)"
  by (simp add: seed_demo_models_def Let_def)

text \<open>
  C9. On an empty collection the seed inserts exactly three documents, whose fields are
  those of the three fixed demonstration items (the store adds an identifier and may stamp
  them), and reports \<open>seeded\<close> true with the count 3. On a collection that is not empty,
  whatever it holds, it writes nothing and reports \<open>seeded\<close> false. So a second seed, run
  after the first, leaves the three documents as they are.
\<close>

theorem seed_idempotent:
  "(\<exists>c3. seed_demo_models e (Some []) =
            (Inr \<lparr>seeded = True, seed_message = None, seed_count = Some 3\<rparr>, Some c3)
      \<and> length c3 = 3
      \<and> map (\<lambda>d. fields.truncate (d\<lparr>created_at := None, updated_at := None\<rparr>)) c3 = demo_items
      \<and> seed_demo_models e' (Some c3) =
            (Inr \<lparr>seeded = False, seed_message = Some ''Collection already has documents'',
                  seed_count = None\<rparr>, Some c3))
   \<and> (coll \<noteq> [] \<longrightarrow>
        seed_demo_models e (Some coll) =
          (Inr \<lparr>seeded = False, seed_message = Some ''Collection already has documents'',
                seed_count = None\<rparr>, Some coll))"
proof (intro conjI impI)
  let ?c3 = "fold (create_document e) demo_items []"
  have run: "seed_demo_models e (Some []) =
      (Inr \<lparr>seeded = True, seed_message = None, seed_count = Some 3\<rparr>, Some ?c3)"
    by (simp add: seed_demo_models_def Let_def demo_items_def)
  have len: "length ?c3 = 3"
    by (simp add: demo_items_def length_create_document)
  have flds: "map (\<lambda>d. fields.truncate (d\<lparr>created_at := None, updated_at := None\<rparr>)) ?c3 =
      demo_items"
    by (simp add: demo_items_def create_document_def CharacterModel_def fields.defs)
  from len have "?c3 \<noteq> []" by auto
  then have again: "seed_demo_models e' (Some ?c3) =
      (Inr \<lparr>seeded = False, seed_message = Some ''Collection already has documents'',
            seed_count = None\<rparr>, Some ?c3)"
    by (rule seed_nonempty)
  from run len flds again
  show "\<exists>c3. seed_demo_models e (Some []) =
            (Inr \<lparr>seeded = True, seed_message = None, seed_count = Some 3\<rparr>, Some c3)
      \<and> length c3 = 3
      \<and> map (\<lambda>d. fields.truncate (d\<lparr>created_at := None, updated_at := None\<rparr>)) c3 = demo_items
      \<and> seed_demo_models e' (Some c3) =
            (Inr \<lparr>seeded = False, seed_message = Some ''Collection already has documents'',
                  seed_count = None\<rparr>, Some c3)"
    by blast
next
  assume "coll \<noteq> []"
  then show "seed_demo_models e (Some coll) =
      (Inr \<lparr>seeded = False, seed_message = Some ''Collection already has documents'',
            seed_count = None\<rparr>, Some coll)"
    by (rule seed_nonempty)
qed

theorem seed_idempotent_witness:
  "example_store \<noteq> []
   \<and> seed_demo_models example_env (Some example_store) =
       (Inr \<lparr>seeded = False, seed_message = Some ''Collection already has documents'',
             seed_count = None\<rparr>, Some example_store)
   \<and> (\<exists>c3. seed_demo_models example_env (Some []) =
            (Inr \<lparr>seeded = True, seed_message = None, seed_count = Some 3\<rparr>, Some c3)
        \<and> length c3 = 3
        \<and> snd (seed_demo_models example_env (Some c3)) = Some c3)"
proof -
  have h: "example_store \<noteq> []"
    by (simp add: example_store_def)
  from seed_idempotent[of example_env example_env example_store] h
  show ?thesis
    by (metis snd_conv)
qed

lemma seed_example_names:
  "map_option (map name) (snd (seed_demo_models example_env (Some []))) =
     Some [Some ''Neon Runner'', Some ''Forest Guardian'', Some ''Mech Scout'']"
  by code_simp

end
